theory Spec2Isabelle
  imports Main "HOL-Library.Word"
begin

section \<open>ESPTimeCast web installer: frame codec, chip identification, flash retry policy\<close>

text \<open>
  The development embeds the protocol core of \<^verbatim>\<open>src/esptimecast.js\<close>:
  \<^verbatim>\<open>slipEncode\<close>, \<^verbatim>\<open>detectESP32S2Port\<close>, \<^verbatim>\<open>safeClosePort\<close>,
  \<^verbatim>\<open>flashFirmwareWithRetry\<close>, the detection flow \<^verbatim>\<open>runFlasher\<close> and the address
  selection of \<^verbatim>\<open>flashFirmware\<close>. Bytes are 8-bit words, JavaScript strings are HOL
  strings, \<^verbatim>\<open>null\<close> is \<open>None\<close>.
\<close>

type_synonym byte = "8 word"

subsection \<open>SLIP framing (\<^verbatim>\<open>slipEncode\<close>)\<close>

text \<open>
  \<^verbatim>\<open>res = [0xC0]; for (b of data) { if (b === 0xC0) res.push(0xDB, 0xDC);
  else if (b === 0xDB) res.push(0xDB, 0xDD); else res.push(b); } res.push(0xC0)\<close>.
  The loop is a left fold over the input that appends to \<^verbatim>\<open>res\<close>.
\<close>

definition slipPush :: "byte list \<Rightarrow> byte \<Rightarrow> byte list" where
  "slipPush res b =
     (if b = 0xC0 then res @ [0xDB, 0xDC]
      else if b = 0xDB then res @ [0xDB, 0xDD]
      else res @ [b])"

definition slipEncode :: "byte list \<Rightarrow> byte list" where
  "slipEncode data = foldl slipPush [0xC0] data @ [0xC0]"

text \<open>
  The inverse of the escape table, following the wording of the specification
  (\<open>0xDB 0xDC\<close> stands for \<open>0xC0\<close>, \<open>0xDB 0xDD\<close> stands for \<open>0xDB\<close>). The source has no
  decoder; this one exists only to state the round trip. A dangling or unknown escape is
  \<open>None\<close>.
\<close>

fun slipUnescape_spec :: "byte list \<Rightarrow> byte list option" where
  "slipUnescape_spec [] = Some []"
| "slipUnescape_spec [b] = (if b = 0xDB then None else Some [b])"
| "slipUnescape_spec (b # c # r) =
     (if b = 0xDB then
        (if c = 0xDC then map_option ((#) 0xC0) (slipUnescape_spec r)
         else if c = 0xDD then map_option ((#) 0xDB) (slipUnescape_spec r)
         else None)
      else map_option ((#) b) (slipUnescape_spec (c # r)))"

subsection \<open>USB descriptor hint and family resolution (\<^verbatim>\<open>runFlasher\<close>)\<close>

text \<open>
  \<^verbatim>\<open>port.getInfo()\<close>: both fields are \<^verbatim>\<open>undefined\<close> for a port that is not a USB
  device.
\<close>

record usb_info =
  usbVendorId :: "nat option"
  usbProductId :: "nat option"

text \<open>
  Lines 240--249: \<^verbatim>\<open>chipByPID\<close> starts as \<^verbatim>\<open>null\<close> and is assigned only inside the
  Espressif vendor branch.
\<close>

definition chipByPID_of :: "usb_info \<Rightarrow> string option" where
  "chipByPID_of info =
     (if usbVendorId info = Some 0x303a then
        (if usbProductId info \<in> set [Some 0x1001, Some 0x1002, Some 0x1003]
           then Some ''NATIVE_CDC''
         else if usbProductId info \<in> set [Some 0x0002, Some 0x0003]
           then Some ''ESP32-S2''
         else None)
      else None)"

text \<open>
  Lines 211 and 322--330: \<^verbatim>\<open>result\<close> starts as \<^verbatim>\<open>"Unknown ESP"\<close>; the chain of
  \<^verbatim>\<open>if / else if\<close> overwrites it at the first test that holds. \<^verbatim>\<open>magic\<close> is a
  number or \<^verbatim>\<open>null\<close>; \<^verbatim>\<open>===\<close> and \<^verbatim>\<open>includes\<close> never equate \<^verbatim>\<open>null\<close> with a
  number.
\<close>

definition resolve :: "string option \<Rightarrow> nat option \<Rightarrow> string" where
  "resolve chipByPID magic =
     (if chipByPID = Some ''ESP32-C3'' then ''ESP32-C3''
      else if magic = Some 0xFFF0C101 \<or> magic = Some 0xC101 then ''ESP8266''
      else if magic = Some 0x00F01D83 then ''ESP32''
      else if magic \<in> set [Some 0x00000009, Some 0x00000000, Some 0x9] then ''ESP32-S3''
      else if magic \<in> set [Some 0x6921506F, Some 0x1B31506F, Some 0x4881606F, Some 0x09]
        then ''ESP32-C3''
      else if magic \<in> set [Some 0x000007C6, Some 0x00004359, Some 0x4359, Some 0x07C6]
        then ''ESP32-S2''
      else if magic \<in> set [Some 0x2CE0806F, Some 0x2CE0106F] then ''ESP32-C6''
      else if magic = Some 0xD422F199 then ''ESP32-H2''
      else if magic = Some 0x1101406F then ''ESP32-C2''
      else ''Unknown ESP'')"

text \<open>
  The alias table as the specification prints it, row by row and in its order; the lookup
  takes the first row that lists the value (\<open>map_of\<close> returns the first binding).
\<close>

definition alias_table_spec :: "(nat \<times> string) list" where
  "alias_table_spec =
     [(0xFFF0C101, ''ESP8266''), (0xC101, ''ESP8266''),
      (0x00F01D83, ''ESP32''),
      (0x00000009, ''ESP32-S3''), (0x00000000, ''ESP32-S3''), (0x9, ''ESP32-S3''),
      (0x6921506F, ''ESP32-C3''), (0x1B31506F, ''ESP32-C3''), (0x4881606F, ''ESP32-C3''),
      (0x09, ''ESP32-C3''),
      (0x000007C6, ''ESP32-S2''), (0x00004359, ''ESP32-S2''), (0x4359, ''ESP32-S2''),
      (0x07C6, ''ESP32-S2''),
      (0x2CE0806F, ''ESP32-C6''), (0x2CE0106F, ''ESP32-C6''),
      (0xD422F199, ''ESP32-H2''),
      (0x1101406F, ''ESP32-C2'')]"

definition resolve_spec :: "nat option \<Rightarrow> string" where
  "resolve_spec magic =
     (case magic of
        None \<Rightarrow> ''Unknown ESP''
      | Some m \<Rightarrow> (case map_of alias_table_spec m of
                    None \<Rightarrow> ''Unknown ESP''
                  | Some family \<Rightarrow> family))"

subsection \<open>JavaScript string and number helpers\<close>

text \<open>\<^verbatim>\<open>s.startsWith(p)\<close> and \<^verbatim>\<open>s.includes(t)\<close> on strings.\<close>

definition startsWith :: "string \<Rightarrow> string \<Rightarrow> bool" where
  "startsWith s p = (take (length p) s = p)"

fun str_includes :: "string \<Rightarrow> string \<Rightarrow> bool" where
  "str_includes [] t = (t = [])"
| "str_includes (c # s) t = (startsWith (c # s) t \<or> str_includes s t)"

definition hexDigit :: "nat \<Rightarrow> char" where
  "hexDigit n = ''0123456789abcdef'' ! n"

text \<open>
  \<^verbatim>\<open>b.toString(16)\<close> for an element of a \<^verbatim>\<open>Uint8Array\<close>: one digit below 16, two
  digits otherwise, lower case, no padding.
\<close>

definition toString16 :: "byte \<Rightarrow> string" where
  "toString16 b =
     (if unat b < 16 then [hexDigit (unat b)]
      else [hexDigit (unat b div 16), hexDigit (unat b mod 16)])"

text \<open>\<^verbatim>\<open>s.padStart(2, "0")\<close>.\<close>

definition padStart2 :: "string \<Rightarrow> string" where
  "padStart2 s = replicate (2 - length s) CHR ''0'' @ s"

text \<open>
  Line 281: \<^verbatim>\<open>[...value].map(b => b.toString(16)).join("")\<close>, and line 308, the same
  with \<^verbatim>\<open>.padStart(2, "0")\<close> on every byte.
\<close>

definition hexJoin :: "byte list \<Rightarrow> string" where
  "hexJoin bs = concat (map toString16 bs)"

definition hexJoinPadded :: "byte list \<Rightarrow> string" where
  "hexJoinPadded bs = concat (map (\<lambda>b. padStart2 (toString16 b)) bs)"

text \<open>
  Line 310: \<^verbatim>\<open>responseHex.match(/010a0[24]00([0-9a-f]{4,8})/)\<close>. The group is greedy:
  at a position where the literal part matches it takes the longest run of lower-case hex
  digits, at most 8, and needs at least 4. The leftmost position that matches wins. The
  result is the captured group \<^verbatim>\<open>m[1]\<close>.
\<close>

definition isHexLower :: "char \<Rightarrow> bool" where
  "isHexLower c = (c \<in> set ''0123456789abcdef'')"

definition matchHere :: "string \<Rightarrow> string option" where
  "matchHere s =
     (if startsWith s ''010a0'' \<and> 5 < length s \<and> s ! 5 \<in> set ''24''
         \<and> startsWith (drop 6 s) ''00''
      then (let grp = take 8 (takeWhile isHexLower (drop 8 s))
            in if 4 \<le> length grp then Some grp else None)
      else None)"

fun regexMatch :: "string \<Rightarrow> string option" where
  "regexMatch [] = matchHere []"
| "regexMatch (c # s) =
     (case matchHere (c # s) of Some grp \<Rightarrow> Some grp | None \<Rightarrow> regexMatch s)"

text \<open>
  Line 313: \<^verbatim>\<open>parseInt(raw.match(/.{2}/g).reverse().join(""), 16)\<close>: cut into pairs
  (an odd last character is dropped), reverse the pairs, read as hexadecimal. Every
  character of the captured group is a lower-case hex digit, so \<^verbatim>\<open>parseInt\<close> reads all
  of it.
\<close>

fun pairs :: "string \<Rightarrow> string list" where
  "pairs (a # b # r) = [a, b] # pairs r"
| "pairs r = []"

definition hexValue :: "char \<Rightarrow> nat" where
  "hexValue c = length (takeWhile (\<lambda>d. d \<noteq> c) ''0123456789abcdef'')"

definition parseHex :: "string \<Rightarrow> nat" where
  "parseHex s = foldl (\<lambda>acc c. 16 * acc + hexValue c) 0 s"

definition magicOf :: "string \<Rightarrow> nat" where
  "magicOf raw = parseHex (concat (rev (pairs raw)))"

subsection \<open>Errors, transport replies, events\<close>

text \<open>A thrown JavaScript error: its \<^verbatim>\<open>name\<close> and its \<^verbatim>\<open>message\<close>.\<close>

record js_error =
  name :: string
  message :: string

text \<open>
  What \<^verbatim>\<open>Promise.race([reader.read(), sleep(ms).then(() => ({ value: null }))])\<close>
  settles to: the timer wins or the read carries no chunk (\<open>Silent\<close>), the read delivers
  a chunk, or the read rejects.
\<close>

datatype reply = Silent | Data "byte list" | ReadError js_error

text \<open>
  The operations on the serial port and the clock, in the order the program issues them.
  Calls into the page (slides, hints, log lines) are not recorded; the terminal slide is
  the outcome. The clock-dependent \<^verbatim>\<open>ensureMinDetectTime\<close> is not recorded either.
\<close>

datatype event =
    RequestPort
  | GetPorts
  | PortOpen nat
  | GetWriter
  | GetReader
  | Write "byte list"
  | ReadRace nat
  | SetSignals bool bool
  | Sleep nat
  | ReleaseWriter
  | ReleaseReader
  | CancelReadable
  | PortClose
  | FlashFirmware nat nat string

definition SYNC_PACKET :: "byte list" where
  "SYNC_PACKET =
     slipEncode ([0x00, 0x08, 0x24, 0x00, 0x00, 0x00, 0x00, 0x00, 0x07, 0x07, 0x12, 0x20]
                 @ replicate 32 0x55)"

definition READ_REG_PACKET :: "byte list" where
  "READ_REG_PACKET =
     slipEncode [0x00, 0x0a, 0x04, 0x00, 0x00, 0x00, 0x00, 0x00, 0x00, 0x10, 0x00, 0x40]"

subsection \<open>The firmware manifest\<close>

record build =
  chipFamily :: string
  factory :: string
  update :: string

definition basePath :: string where
  "basePath = ''v1.0.1/''"

definition manifest_builds :: "build list" where
  "manifest_builds =
     [\<lparr>chipFamily = ''ESP8266'', factory = basePath @ ''esp8266.bin'',
        update = basePath @ ''esp8266.bin''\<rparr>,
      \<lparr>chipFamily = ''ESP32'', factory = basePath @ ''esp32_full.bin'',
        update = basePath @ ''esp32_app.bin''\<rparr>,
      \<lparr>chipFamily = ''ESP32-C3'', factory = basePath @ ''esp32c3_full.bin'',
        update = basePath @ ''esp32c3_app.bin''\<rparr>,
      \<lparr>chipFamily = ''ESP32-S2'', factory = basePath @ ''esp32s2_full.bin'',
        update = basePath @ ''esp32s2_app.bin''\<rparr>,
      \<lparr>chipFamily = ''ESP32-S3'', factory = basePath @ ''esp32s3_full.bin'',
        update = basePath @ ''esp32s3_app.bin''\<rparr>]"

text \<open>\<^verbatim>\<open>manifest.builds.find(b => b.chipFamily === chip)\<close>.\<close>

definition findBuild :: "string \<Rightarrow> build option" where
  "findBuild chip = find (\<lambda>b. chipFamily b = chip) manifest_builds"

subsection \<open>Image and address selection (\<^verbatim>\<open>showInstallPrompt\<close>, \<^verbatim>\<open>flashFirmware\<close>)\<close>

text \<open>
  Lines 1022--1025: \<^verbatim>\<open>shouldKeepData()\<close> reads the stored preference,
  \<^verbatim>\<open>localStorage.getItem('keepData') === 'true'\<close>; the item is a string, or \<^verbatim>\<open>null\<close>
  when it was never stored.
\<close>

definition shouldKeepData :: "string option \<Rightarrow> bool" where
  "shouldKeepData stored = (stored = Some ''true'')"

text \<open>
  Lines 1085--1088, the change handler of the erase-all checkbox in the settings dialog:
  \<^verbatim>\<open>localStorage.setItem('keepData', !eraseAllCheckbox.checked)\<close> stores the text of
  the negated checkbox state. The dialog can be opened at any time, also while a flash is
  waiting on the device.
\<close>

definition eraseAllChanged :: "bool \<Rightarrow> string option \<Rightarrow> string option" where
  "eraseAllChanged checked stored = Some (if \<not> checked then ''true'' else ''false'')"

text \<open>Line 180: the image, from the preference as read in the click handler.\<close>

definition selectedFirmware :: "bool \<Rightarrow> build \<Rightarrow> string" where
  "selectedFirmware keepData b = (if keepData then update b else factory b)"

text \<open>Line 482: the address, from the preference as read inside \<^verbatim>\<open>flashFirmware\<close>.\<close>

definition flashAddress :: "bool \<Rightarrow> string \<Rightarrow> nat" where
  "flashAddress keepData chip =
     (if keepData \<and> startsWith chip ''ESP32'' then 0x10000 else 0x0000)"

text \<open>What \<^verbatim>\<open>loader.writeFlash\<close> is asked to do: the image file, the address, the erase flag.\<close>

record flash_write =
  firmwareFile :: string
  address :: nat
  eraseAll :: bool

text \<open>
  From the click on the install button to the first \<^verbatim>\<open>writeFlash\<close>. The click handler
  (lines 179--182) reads the preference and fixes the path \<^verbatim>\<open>"bins/" + selectedFirmware\<close>.
  \<^verbatim>\<open>flashFirmware\<close> then awaits the loader connect, the fetch of the image and a sleep;
  \<open>changes\<close> are the checkbox changes the user makes in that time, in order. Line 481
  reads the preference again for the address and for \<^verbatim>\<open>eraseAll: !keepData\<close>.
\<close>

definition installWrite :: "string option \<Rightarrow> bool list \<Rightarrow> string \<Rightarrow> build \<Rightarrow> flash_write" where
  "installWrite stored changes chip b =
     (let firmwarePath = ''bins/'' @ selectedFirmware (shouldKeepData stored) b;
          stored' = foldl (\<lambda>item checked. eraseAllChanged checked item) stored changes;
          keepData = shouldKeepData stored'
      in \<lparr>firmwareFile = firmwarePath, address = flashAddress keepData chip,
          eraseAll = \<not> keepData\<rparr>)"

subsection \<open>The detection session (\<^verbatim>\<open>runFlasher\<close>)\<close>

text \<open>
  The mutable state of one run: whether the port is open, whether its writable and its
  readable stream are locked, whether the variables \<^verbatim>\<open>writer\<close> and \<^verbatim>\<open>reader\<close> are
  set (not \<^verbatim>\<open>null\<close>), how many reads have been raced so far, and the operations issued
  so far.
\<close>

record session =
  portOpen :: bool
  writableLocked :: bool
  readableLocked :: bool
  writer :: bool
  reader :: bool
  reads :: nat
  trace :: "event list"

definition session0 :: session where
  "session0 =
     \<lparr>portOpen = False, writableLocked = False, readableLocked = False,
      writer = False, reader = False, reads = 0, trace = []\<rparr>"

definition emit :: "event list \<Rightarrow> session \<Rightarrow> session" where
  "emit es st = st\<lparr>trace := trace st @ es\<rparr>"

text \<open>
  The environment of a run: what the port picker answers, whether \<^verbatim>\<open>port.open\<close>
  rejects, and what the k-th raced read settles to. Writes, control-line changes and
  \<^verbatim>\<open>port.close\<close> are taken to succeed.
\<close>

record env =
  pickerResult :: "js_error + usb_info"
  openError :: "js_error option"
  replies :: "nat \<Rightarrow> reply"

definition raceRead :: "(nat \<Rightarrow> reply) \<Rightarrow> nat \<Rightarrow> session \<Rightarrow> reply \<times> session" where
  "raceRead rs ms st = (rs (reads st), (emit [ReadRace ms] st)\<lparr>reads := reads st + 1\<rparr>)"

text \<open>Line 281: \<^verbatim>\<open>value && [...value].map(b => b.toString(16)).join("").includes("18")\<close>.\<close>

definition syncAck :: "reply \<Rightarrow> bool" where
  "syncAck r = (case r of Data bs \<Rightarrow> str_includes (hexJoin bs) ''18'' | _ \<Rightarrow> False)"

text \<open>Lines 287--291: the DTR/RTS pulse.\<close>

definition resetPulse :: "event list" where
  "resetPulse =
     [SetSignals False True, Sleep 100, SetSignals True False, Sleep 100,
      SetSignals False False]"

text \<open>
  Lines 278--293, \<^verbatim>\<open>for (let i = 0; i < 20; i++)\<close>. The result is the final value of
  \<^verbatim>\<open>synced\<close>, or the error of a rejected read.
\<close>

function syncLoop :: "(nat \<Rightarrow> reply) \<Rightarrow> nat \<Rightarrow> session \<Rightarrow> (js_error + bool) \<times> session" where
  "syncLoop rs i st =
     (if i < 20 then
        (case raceRead rs 100 (emit [Write SYNC_PACKET] st) of
           (ReadError e, st') \<Rightarrow> (Inl e, st')
         | (r, st') \<Rightarrow>
             if syncAck r then (Inr True, st')
             else syncLoop rs (i + 1) (if i = 10 then emit resetPulse st' else st'))
      else (Inr False, st))"
  by pat_completeness auto
termination
  by (relation "measure (\<lambda>(rs, i, st). 20 - i)") auto

text \<open>
  Lines 306--309, the inner loop of the probe: ten raced reads of 60 ms, every chunk
  appended to \<^verbatim>\<open>responseHex\<close> as padded hex.
\<close>

function readSlices ::
  "(nat \<Rightarrow> reply) \<Rightarrow> nat \<Rightarrow> string \<Rightarrow> session \<Rightarrow> (js_error + string) \<times> session" where
  "readSlices rs i responseHex st =
     (if i < 10 then
        (case raceRead rs 60 st of
           (ReadError e, st') \<Rightarrow> (Inl e, st')
         | (Data bs, st') \<Rightarrow> readSlices rs (i + 1) (responseHex @ hexJoinPadded bs) st'
         | (Silent, st') \<Rightarrow> readSlices rs (i + 1) responseHex st')
      else (Inr responseHex, st))"
  by pat_completeness auto
termination
  by (relation "measure (\<lambda>(rs, i, h, st). 10 - i)") auto

text \<open>
  Lines 303--319, \<^verbatim>\<open>for (let attempt = 0; attempt < 5; attempt++)\<close>. The result is
  \<^verbatim>\<open>magic\<close>, \<open>None\<close> for \<^verbatim>\<open>null\<close>.
\<close>

function probeLoop ::
  "(nat \<Rightarrow> reply) \<Rightarrow> nat \<Rightarrow> session \<Rightarrow> (js_error + nat option) \<times> session" where
  "probeLoop rs attempt st =
     (if attempt < 5 then
        (case readSlices rs 0 [] (emit [Write READ_REG_PACKET] st) of
           (Inl e, st') \<Rightarrow> (Inl e, st')
         | (Inr responseHex, st') \<Rightarrow>
             (case regexMatch responseHex of
                Some raw \<Rightarrow> (Inr (Some (magicOf raw)), st')
              | None \<Rightarrow> probeLoop rs (attempt + 1) (emit [Sleep 100] st')))
      else (Inr None, st))"
  by pat_completeness auto
termination
  by (relation "measure (\<lambda>(rs, attempt, st). 5 - attempt)") auto

text \<open>
  Where a run of \<^verbatim>\<open>runFlasher\<close> ends: the picker was dismissed (quiet return), the
  install prompt is shown for a family and its build, or one of the terminal slides.
\<close>

datatype detect_outcome =
    PickerCancelled
  | InstallPrompt string build
  | UnknownESP
  | UnsupportedBoard string
  | BootMode
  | ErrorSlide

text \<open>
  Lines 338--366, after the family is resolved: release both locks, close the port unless
  the family is ESP32-S2, then choose the slide.
\<close>

definition handover :: "string \<Rightarrow> session \<Rightarrow> (js_error + detect_outcome) \<times> session" where
  "handover result st =
     (let st1 = (emit [ReleaseWriter, ReleaseReader] st)
                  \<lparr>writableLocked := False, readableLocked := False,
                   writer := False, reader := False\<rparr>;
          st2 = (if result \<noteq> ''ESP32-S2'' then (emit [PortClose] st1)\<lparr>portOpen := False\<rparr>
                 else st1)
      in if result = ''Unknown ESP'' then (Inr UnknownESP, st2)
         else (case findBuild result of
                 None \<Rightarrow> (Inr (UnsupportedBoard result), st2)
               | Some b \<Rightarrow> (Inr (InstallPrompt result b), st2)))"

text \<open>
  Lines 271--336 for a port that is not handled by the native-USB shortcut: open, take the
  locks, sync, probe, resolve.
\<close>

definition probePort ::
  "env \<Rightarrow> string option \<Rightarrow> session \<Rightarrow> (js_error + detect_outcome) \<times> session" where
  "probePort e chipByPID st =
     (case openError e of
        Some err \<Rightarrow> (Inl err, emit [PortOpen 115200] st)
      | None \<Rightarrow>
          (let st1 = (emit [PortOpen 115200, GetWriter, GetReader] st)
                       \<lparr>portOpen := True, writableLocked := True, readableLocked := True,
                        writer := True, reader := True\<rparr>
           in case syncLoop (replies e) 0 st1 of
                (Inl err, st2) \<Rightarrow> (Inl err, st2)
              | (Inr False, st2) \<Rightarrow> (Inl \<lparr>name = ''Error'', message = ''Sync Failed''\<rparr>, st2)
              | (Inr True, st2) \<Rightarrow>
                  (case probeLoop (replies e) 0 (emit [Sleep 200] st2) of
                     (Inl err, st3) \<Rightarrow> (Inl err, st3)
                   | (Inr magic, st3) \<Rightarrow> handover (resolve chipByPID magic) st3)))"

text \<open>Lines 214--366, the body of the \<^verbatim>\<open>try\<close>; \<open>Inl\<close> is an error thrown out of it.\<close>

definition tryBody :: "env \<Rightarrow> session \<Rightarrow> (js_error + detect_outcome) \<times> session" where
  "tryBody e st =
     (case pickerResult e of
        Inl err \<Rightarrow>
          (if name err = ''NotFoundError'' then (Inr PickerCancelled, emit [RequestPort] st)
           else (Inl err, emit [RequestPort] st))
      | Inr info \<Rightarrow>
          (let st1 = emit [RequestPort, GetPorts] st;
               chipByPID = chipByPID_of info
           in if chipByPID = Some ''ESP32-S2'' then
                (case findBuild ''ESP32-S2'' of
                   None \<Rightarrow> (Inl \<lparr>name = ''Error'', message = ''ESP32-S2 build not found''\<rparr>, st1)
                 | Some b \<Rightarrow> (Inr (InstallPrompt ''ESP32-S2'' b), st1))
              else probePort e chipByPID st1))"

text \<open>Lines 368--382, the \<^verbatim>\<open>catch\<close> block.\<close>

definition catchBlock :: "js_error \<Rightarrow> detect_outcome" where
  "catchBlock err =
     (if str_includes (message err) ''The device has been lost''
         \<or> str_includes (message err) ''not available''
         \<or> name err = ''NetworkError''
      then BootMode else ErrorSlide)"

text \<open>Lines 383--386, the \<^verbatim>\<open>finally\<close> block.\<close>

definition finallyBlock :: "session \<Rightarrow> session" where
  "finallyBlock st =
     (let st1 = (if writer st then (emit [ReleaseWriter] st)\<lparr>writableLocked := False\<rparr>
                 else st)
      in if reader st1 then (emit [ReleaseReader] st1)\<lparr>readableLocked := False\<rparr>
         else st1)"

definition runFlasher :: "env \<Rightarrow> detect_outcome \<times> session" where
  "runFlasher e =
     (case tryBody e session0 of
        (Inr out, st) \<Rightarrow> (out, finallyBlock st)
      | (Inl err, st) \<Rightarrow> (catchBlock err, finallyBlock st))"

subsection \<open>Releasing a port (\<^verbatim>\<open>safeClosePort\<close>)\<close>

text \<open>
  What \<^verbatim>\<open>safeClosePort\<close> finds on the port object: whether \<^verbatim>\<open>port.readable\<close> and
  \<^verbatim>\<open>port.writable\<close> are set, and which of the three calls reject.
\<close>

record port_view =
  readable :: bool
  cancelFails :: bool
  writable :: bool
  getWriterFails :: bool
  closeFails :: bool

text \<open>
  Lines 14--34. A \<^verbatim>\<open>null\<close> port returns at once. The two inner \<^verbatim>\<open>try\<close> blocks
  swallow a failed \<^verbatim>\<open>cancel\<close> and a failed \<^verbatim>\<open>getWriter\<close> (which skips
  \<^verbatim>\<open>releaseLock\<close>); the outer \<^verbatim>\<open>catch\<close> logs a failed \<^verbatim>\<open>close\<close>. The function has
  no error result: nothing is thrown to the caller. The second component says whether the
  port is closed afterwards.
\<close>

definition safeClosePort :: "port_view option \<Rightarrow> event list \<times> bool" where
  "safeClosePort port =
     (case port of
        None \<Rightarrow> ([], False)
      | Some p \<Rightarrow>
          ((if readable p then [CancelReadable] else [])
           @ (if writable p then (if getWriterFails p then [GetWriter]
                                  else [GetWriter, ReleaseWriter])
              else [])
           @ [PortClose],
           \<not> closeFails p))"

subsection \<open>Flashing with retry (\<^verbatim>\<open>flashFirmwareWithRetry\<close>)\<close>

text \<open>A granted serial port: an identity and its USB descriptor.\<close>

record serial_port =
  portId :: nat
  portInfo :: usb_info

text \<open>
  One call of \<^verbatim>\<open>flashFirmware\<close>: it returns, or it throws an error after
  \<^verbatim>\<open>Date.now() - startTime\<close> milliseconds.
\<close>

datatype attempt_result = FlashOk | FlashFails int js_error

text \<open>
  The environment of the retry loop: the result of the n-th attempt, the state of the
  current port when \<^verbatim>\<open>safeClosePort\<close> is called on it, the ports that
  \<^verbatim>\<open>navigator.serial.getPorts()\<close> lists, and what the port picker answers.
\<close>

record flash_env =
  flashResult :: "nat \<Rightarrow> attempt_result"
  portView :: port_view
  grantedPorts :: "serial_port list"
  pickResult :: "js_error + serial_port"

text \<open>
  Lines 52--72: the first granted port with the Espressif vendor id, else the port picker;
  a dismissed picker gives \<^verbatim>\<open>null\<close>, any other error is thrown on.
\<close>

definition detectESP32S2Port :: "flash_env \<Rightarrow> (js_error + serial_port option) \<times> event list" where
  "detectESP32S2Port e =
     (case find (\<lambda>p. usbVendorId (portInfo p) = Some 0x303a) (grantedPorts e) of
        Some p \<Rightarrow> (Inr (Some p), [GetPorts])
      | None \<Rightarrow>
          (case pickResult e of
             Inr p \<Rightarrow> (Inr (Some p), [GetPorts, RequestPort])
           | Inl err \<Rightarrow>
               if name err = ''NotFoundError'' then (Inr None, [GetPorts, RequestPort])
               else (Inl err, [GetPorts, RequestPort])))"

text \<open>
  How \<^verbatim>\<open>flashFirmwareWithRetry\<close> ends: \<open>Success\<close> (return after a flash that did not
  throw), \<open>BootloaderRequired\<close> (\<^verbatim>\<open>slideBootmode\<close>), \<open>Cancelled\<close> (quiet return when
  the re-detection gave \<^verbatim>\<open>null\<close>), \<open>Fatal\<close> (\<^verbatim>\<open>slideError\<close>), \<open>Exhausted\<close> (the loop
  ran out of attempts), \<open>Thrown\<close> (an error of the re-detection leaves the function).
\<close>

datatype flash_outcome =
    Success
  | BootloaderRequired
  | Cancelled
  | Fatal
  | Exhausted
  | Thrown js_error

text \<open>
  Lines 119--156, \<^verbatim>\<open>for (let attempt = 1; attempt <= maxRetries; attempt++)\<close>. Every
  call of \<^verbatim>\<open>flashFirmware\<close> is recorded with the attempt number, the port it was given
  and the firmware path.
\<close>

function flashRetryLoop ::
  "flash_env \<Rightarrow> string \<Rightarrow> string \<Rightarrow> nat \<Rightarrow> nat \<Rightarrow> serial_port \<Rightarrow> event list
     \<Rightarrow> flash_outcome \<times> event list" where
  "flashRetryLoop e chip firmwarePath maxRetries attempt currentPort tr =
     (if attempt \<le> maxRetries then
        (let tr1 = tr @ [FlashFirmware attempt (portId currentPort) firmwarePath]
         in case flashResult e attempt of
              FlashOk \<Rightarrow> (Success, tr1)
            | FlashFails duration err \<Rightarrow>
                if chip = ''ESP32-S2'' \<and> duration > 15000 then (BootloaderRequired, tr1)
                else if attempt = 1 \<and> chip = ''ESP32-S2'' then
                  (let tr2 = tr1 @ fst (safeClosePort (Some (portView e))) @ [Sleep 1000]
                   in case detectESP32S2Port e of
                        (Inl err', es) \<Rightarrow> (Thrown err', tr2 @ es)
                      | (Inr None, es) \<Rightarrow> (Cancelled, tr2 @ es)
                      | (Inr (Some p), es) \<Rightarrow>
                          flashRetryLoop e chip firmwarePath maxRetries (attempt + 1) p
                            (tr2 @ es))
                else (Fatal, tr1))
      else (Exhausted, tr))"
  by pat_completeness auto
termination
  by (relation "measure (\<lambda>(e, chip, path, maxRetries, attempt, p, tr). maxRetries + 1 - attempt)")
     auto

definition flashFirmwareWithRetry ::
  "flash_env \<Rightarrow> serial_port \<Rightarrow> string \<Rightarrow> string \<Rightarrow> nat \<Rightarrow> flash_outcome \<times> event list" where
  "flashFirmwareWithRetry e port chip firmwarePath maxRetries =
     flashRetryLoop e chip firmwarePath maxRetries 1 port []"

text \<open>The number of \<^verbatim>\<open>flashFirmware\<close> calls and of re-detections in a trace.\<close>

definition flashAttempts :: "event list \<Rightarrow> nat" where
  "flashAttempts tr = length (filter (\<lambda>ev. case ev of FlashFirmware _ _ _ \<Rightarrow> True | _ \<Rightarrow> False) tr)"

definition reacquisitions :: "event list \<Rightarrow> nat" where
  "reacquisitions tr = length (filter (\<lambda>ev. ev = GetPorts) tr)"

subsection \<open>Vocabulary for stating properties of the sync loop\<close>

text \<open>
  The state after one sync frame was written and one read was raced; the operations of
  one iteration of the sync loop that did not end it (iteration 10 adds the reset pulse);
  a reply that neither ends the loop with success nor with an error; the number of sync
  frames in a list of operations.
\<close>

definition exchanged :: "session \<Rightarrow> session" where
  "exchanged st = st\<lparr>reads := reads st + 1, trace := trace st @ [Write SYNC_PACKET, ReadRace 100]\<rparr>"

definition missEvents :: "nat \<Rightarrow> event list" where
  "missEvents i = [Write SYNC_PACKET, ReadRace 100] @ (if i = 10 then resetPulse else [])"

definition unacked :: "reply \<Rightarrow> bool" where
  "unacked r = (case r of Silent \<Rightarrow> True | Data bs \<Rightarrow> \<not> syncAck (Data bs) | ReadError err \<Rightarrow> False)"

definition syncFrames :: "event list \<Rightarrow> nat" where
  "syncFrames tr = length (filter (\<lambda>ev. ev = Write SYNC_PACKET) tr)"

declare syncLoop.simps [simp del] readSlices.simps [simp del] probeLoop.simps [simp del]
  flashRetryLoop.simps [simp del]

subsection \<open>Sample environments\<close>

text \<open>
  Concrete inputs for the examples below: a transport that stays silent, one that answers
  every sync frame with the two bytes \<open>0x01 0x08\<close>, one whose third reply is the start of
  a ROM sync response; a UART bridge descriptor and the descriptor of a port that is not
  a USB device. Further down, the manifest build of the ESP32 family.
\<close>

definition silentReplies :: "nat \<Rightarrow> reply" where
  "silentReplies j = Silent"

definition pairReplies :: "nat \<Rightarrow> reply" where
  "pairReplies j = Data [0x01, 0x08]"

definition thirdReplies :: "nat \<Rightarrow> reply" where
  "thirdReplies j = (if j = 2 then Data [0xC0, 0x01, 0x08, 0x04] else Silent)"

definition uartInfo :: usb_info where
  "uartInfo = \<lparr>usbVendorId = Some 0x10C4, usbProductId = Some 0xEA60\<rparr>"

definition noInfo :: usb_info where
  "noInfo = \<lparr>usbVendorId = None, usbProductId = None\<rparr>"

definition silentEnv :: env where
  "silentEnv = \<lparr>pickerResult = Inr uartInfo, openError = None, replies = silentReplies\<rparr>"

text \<open>A native-USB ESP32-S2 and a native-CDC descriptor (shared by ESP32-S3 and ESP32-C3).\<close>

definition s2Env :: env where
  "s2Env =
     \<lparr>pickerResult = Inr \<lparr>usbVendorId = Some 0x303A, usbProductId = Some 0x0002\<rparr>,
      openError = None, replies = thirdReplies\<rparr>"

definition cdcEnv :: env where
  "cdcEnv =
     \<lparr>pickerResult = Inr \<lparr>usbVendorId = Some 0x303A, usbProductId = Some 0x1001\<rparr>,
      openError = None, replies = silentReplies\<rparr>"

text \<open>
  Inputs for the retry loop: a native-USB ESP32-S2 port, an open port as
  \<^verbatim>\<open>safeClosePort\<close> finds it, a loader that fails after exactly 15000 ms on every
  attempt, one that fails after 800 ms on the first attempt only, and a user who dismisses
  the port picker.
\<close>

definition esp32Build :: build where
  "esp32Build =
     \<lparr>chipFamily = ''ESP32'', factory = ''v1.0.1/esp32_full.bin'',
      update = ''v1.0.1/esp32_app.bin''\<rparr>"

definition s2Port :: serial_port where
  "s2Port = \<lparr>portId = 1, portInfo = \<lparr>usbVendorId = Some 0x303a, usbProductId = Some 0x0002\<rparr>\<rparr>"

definition openView :: port_view where
  "openView =
     \<lparr>readable = True, cancelFails = False, writable = True, getWriterFails = False,
      closeFails = False\<rparr>"

definition connectError :: js_error where
  "connectError = \<lparr>name = ''Error'', message = ''Failed to connect with the device''\<rparr>"

definition pickerDismissed :: js_error where
  "pickerDismissed = \<lparr>name = ''NotFoundError'', message = ''No port selected by the user.''\<rparr>"

definition boundaryFail :: "nat \<Rightarrow> attempt_result" where
  "boundaryFail n = FlashFails 15000 connectError"

definition transientFail :: "nat \<Rightarrow> attempt_result" where
  "transientFail n = (if n = 1 then FlashFails 800 connectError else FlashOk)"

definition slowFail :: "nat \<Rightarrow> attempt_result" where
  "slowFail n = FlashFails 20000 connectError"

definition boundaryEnv :: flash_env where
  "boundaryEnv =
     \<lparr>flashResult = boundaryFail, portView = openView, grantedPorts = [s2Port],
      pickResult = Inl pickerDismissed\<rparr>"

definition transientEnv :: flash_env where
  "transientEnv =
     \<lparr>flashResult = transientFail, portView = openView, grantedPorts = [s2Port],
      pickResult = Inl pickerDismissed\<rparr>"

definition abortEnv :: flash_env where
  "abortEnv =
     \<lparr>flashResult = transientFail, portView = openView, grantedPorts = [],
      pickResult = Inl pickerDismissed\<rparr>"

definition slowEnv :: flash_env where
  "slowEnv =
     \<lparr>flashResult = slowFail, portView = openView, grantedPorts = [s2Port],
      pickResult = Inl pickerDismissed\<rparr>"

section \<open>Frame codec\<close>

lemma foldl_slipPush:
  "foldl slipPush acc data = acc @ concat (map (slipPush []) data)"
  by (induction data arbitrary: acc) (simp_all add: slipPush_def)

lemma slipPush_no_delimiter: "0xC0 \<notin> set (slipPush [] b)"
  by (simp add: slipPush_def)

lemma slipUnescape_spec_plain:
  "b \<noteq> 0xDB \<Longrightarrow>
     slipUnescape_spec (b # xs) = map_option ((#) b) (slipUnescape_spec xs)"
  by (cases xs) simp_all

lemma slipUnescape_spec_escaped:
  "slipUnescape_spec (concat (map (slipPush []) data)) = Some data"
proof (induction data)
  case Nil
  show ?case by simp
next
  case (Cons b data)
  show ?case
  proof (cases "b = 0xC0 \<or> b = 0xDB")
    case True
    with Cons show ?thesis by (auto simp: slipPush_def)
  next
    case False
    with Cons show ?thesis
      by (simp add: slipPush_def slipUnescape_spec_plain)
  qed
qed

text \<open>
  Claim C7. For every byte sequence, the empty one included, the output of
  \<open>slipEncode\<close> is the delimiter \<open>0xC0\<close>, an interior, and the delimiter \<open>0xC0\<close> again;
  no byte of the interior is \<open>0xC0\<close>; and undoing the escape table on the interior gives
  back the input exactly.
\<close>

theorem slipEncode_roundtrip:
  "\<exists>body. slipEncode data = 0xC0 # body @ [0xC0]
        \<and> hd (slipEncode data) = 0xC0 \<and> last (slipEncode data) = 0xC0
        \<and> 0xC0 \<notin> set body
        \<and> slipUnescape_spec body = Some data"
proof -
  let ?body = "concat (map (slipPush []) data)"
  have enc: "slipEncode data = 0xC0 # ?body @ [0xC0]"
    by (simp add: slipEncode_def foldl_slipPush)
  have clean: "0xC0 \<notin> set ?body"
    using slipPush_no_delimiter by auto
  show ?thesis
    using enc clean slipUnescape_spec_escaped by auto
qed

section \<open>Family resolution\<close>

lemma chipByPID_of_not_C3: "chipByPID_of info \<noteq> Some ''ESP32-C3''"
  by (simp add: chipByPID_of_def)

lemma resolve_no_hint:
  "chipByPID \<noteq> Some ''ESP32-C3'' \<Longrightarrow> resolve chipByPID magic = resolve_spec magic"
  by (cases magic) (simp_all add: resolve_def resolve_spec_def alias_table_spec_def)

text \<open>
  Claim C1. Whatever the USB descriptor of the port, the resolution step of the detection
  flow maps the probed magic value to the family that the alias table gives under
  first-match lookup: every listed value goes to the family of the first row that lists it
  (so 9, listed for ESP32-S3 and again for ESP32-C3, resolves to ESP32-S3), an absent
  magic value and every value not in the table resolve to Unknown.
\<close>

theorem resolve_alias_table:
  "resolve (chipByPID_of info) magic = resolve_spec magic
   \<and> map (\<lambda>v. resolve (chipByPID_of info) (Some v))
        [0xFFF0C101, 0xC101, 0x00F01D83, 0x00000009, 0x00000000, 0x9,
         0x6921506F, 0x1B31506F, 0x4881606F, 0x09,
         0x000007C6, 0x00004359, 0x4359, 0x07C6,
         0x2CE0806F, 0x2CE0106F, 0xD422F199, 0x1101406F]
     = [''ESP8266'', ''ESP8266'', ''ESP32'', ''ESP32-S3'', ''ESP32-S3'', ''ESP32-S3'',
        ''ESP32-C3'', ''ESP32-C3'', ''ESP32-C3'', ''ESP32-S3'',
        ''ESP32-S2'', ''ESP32-S2'', ''ESP32-S2'', ''ESP32-S2'',
        ''ESP32-C6'', ''ESP32-C6'', ''ESP32-H2'', ''ESP32-C2'']
   \<and> resolve (chipByPID_of info) None = ''Unknown ESP''
   \<and> (m \<notin> fst ` set alias_table_spec \<longrightarrow>
        resolve (chipByPID_of info) (Some m) = ''Unknown ESP'')"
proof -
  have a: "resolve (chipByPID_of info) mg = resolve_spec mg" for mg
    by (rule resolve_no_hint [OF chipByPID_of_not_C3])
  show ?thesis
    unfolding a
    by (simp add: resolve_spec_def alias_table_spec_def)
qed

theorem resolve_alias_table_witness:
  "(12345::nat) \<notin> fst ` set alias_table_spec
   \<and> resolve (chipByPID_of uartInfo) (Some 12345) = ''Unknown ESP''
   \<and> resolve (chipByPID_of uartInfo) (Some 9) = ''ESP32-S3''"
  using resolve_alias_table [of uartInfo "Some 9" 12345]
  by (simp add: resolve_spec_def alias_table_spec_def)

section \<open>The sync handshake\<close>

lemma raceRead_sync:
  "raceRead rs 100 (emit [Write SYNC_PACKET] st) = (rs (reads st), exchanged st)"
  by (simp add: raceRead_def emit_def exchanged_def)

lemma syncLoop_done: "\<not> i < 20 \<Longrightarrow> syncLoop rs i st = (Inr False, st)"
  by (simp add: syncLoop.simps)

lemma syncLoop_decided:
  "i < 20 \<Longrightarrow> \<not> unacked (rs (reads st)) \<Longrightarrow>
     syncLoop rs i st =
       ((case rs (reads st) of ReadError err \<Rightarrow> Inl err | _ \<Rightarrow> Inr True), exchanged st)"
  by (subst syncLoop.simps)
     (simp add: raceRead_sync unacked_def syncAck_def split: reply.splits)

lemma syncLoop_miss:
  "i < 20 \<Longrightarrow> unacked (rs (reads st)) \<Longrightarrow>
     syncLoop rs i st =
       syncLoop rs (Suc i) (if i = 10 then emit resetPulse (exchanged st) else exchanged st)"
  by (subst syncLoop.simps)
     (simp add: raceRead_sync unacked_def syncAck_def split: reply.splits)

lemma after_miss:
  "(if i = 10 then emit resetPulse (exchanged st) else exchanged st)
     = st\<lparr>reads := Suc (reads st), trace := trace st @ missEvents i\<rparr>"
  by (simp add: emit_def exchanged_def missEvents_def)

lemma syncLoop_unacked:
  "i \<le> 20 \<Longrightarrow> reads st = i \<Longrightarrow> (\<forall>j<20. i \<le> j \<longrightarrow> unacked (rs j)) \<Longrightarrow>
     syncLoop rs i st
       = (Inr False, st\<lparr>reads := 20, trace := trace st @ concat (map missEvents [i..<20])\<rparr>)"
proof (induction "20 - i" arbitrary: i st)
  case 0
  then have "\<not> i < 20" and "reads st = 20" by simp_all
  then show ?case by (simp add: syncLoop_done)
next
  case (Suc n)
  then have lt: "i < 20" by simp
  let ?st = "st\<lparr>reads := Suc (reads st), trace := trace st @ missEvents i\<rparr>"
  from Suc.prems lt have un: "unacked (rs (reads st))" by simp
  have step: "syncLoop rs i st = syncLoop rs (Suc i) ?st"
    using syncLoop_miss [of i rs st] lt un by (simp only: after_miss)
  have n: "n = 20 - Suc i" using Suc.hyps(2) by simp
  have le: "Suc i \<le> 20" using lt by simp
  have rd: "reads ?st = Suc i" using Suc.prems(2) by simp
  have rest: "\<forall>j<20. Suc i \<le> j \<longrightarrow> unacked (rs j)" using Suc.prems(3) by simp
  note IH = Suc.hyps(1) [OF n le rd rest]
  have upt: "[i..<20] = i # [Suc i..<20]" using lt by (simp add: upt_conv_Cons)
  show ?case
    unfolding step IH by (simp add: upt)
qed

lemma syncLoop_first_decided:
  "i \<le> k \<Longrightarrow> k < 20 \<Longrightarrow> reads st = i \<Longrightarrow> (\<forall>j<k. i \<le> j \<longrightarrow> unacked (rs j)) \<Longrightarrow>
   \<not> unacked (rs k) \<Longrightarrow>
     syncLoop rs i st
       = ((case rs k of ReadError err \<Rightarrow> Inl err | _ \<Rightarrow> Inr True),
          st\<lparr>reads := Suc k,
             trace := trace st @ concat (map missEvents [i..<k])
                      @ [Write SYNC_PACKET, ReadRace 100]\<rparr>)"
proof (induction "k - i" arbitrary: i st)
  case 0
  then have "i = k" by simp
  with 0 show ?case by (simp add: syncLoop_decided exchanged_def)
next
  case (Suc n)
  then have lt: "i < k" by simp
  then have lt20: "i < 20" using Suc.prems(2) by simp
  let ?st = "st\<lparr>reads := Suc (reads st), trace := trace st @ missEvents i\<rparr>"
  from Suc.prems lt have un: "unacked (rs (reads st))" by simp
  have step: "syncLoop rs i st = syncLoop rs (Suc i) ?st"
    using syncLoop_miss [of i rs st] lt20 un by (simp only: after_miss)
  have n: "n = k - Suc i" using Suc.hyps(2) by simp
  have le: "Suc i \<le> k" using lt by simp
  have rd: "reads ?st = Suc i" using Suc.prems(3) by simp
  have rest: "\<forall>j<k. Suc i \<le> j \<longrightarrow> unacked (rs j)" using Suc.prems(4) by simp
  note IH = Suc.hyps(1) [OF n le Suc.prems(2) rd rest Suc.prems(5)]
  have upt: "[i..<k] = i # [Suc i..<k]" using lt by (simp add: upt_conv_Cons)
  show ?case
    unfolding step IH by (simp add: upt)
qed

lemma syncFrames_append: "syncFrames (xs @ ys) = syncFrames xs + syncFrames ys"
  by (simp add: syncFrames_def)

lemma syncFrames_missEvents: "syncFrames (missEvents i) = 1"
  by (simp add: syncFrames_def missEvents_def resetPulse_def)

lemma syncFrames_misses: "syncFrames (concat (map missEvents [i..<k])) = k - i"
proof (induction "k - i" arbitrary: i)
  case 0
  then show ?case by (simp add: syncFrames_def)
next
  case (Suc n)
  then have lt: "i < k" by simp
  have upt: "[i..<k] = i # [Suc i..<k]" using lt by (simp add: upt_conv_Cons)
  have "n = k - Suc i" using Suc.hyps(2) by simp
  from Suc.hyps(1) [OF this] show ?case
    using lt by (simp add: upt syncFrames_append syncFrames_missEvents)
qed

lemma misses_explicit:
  "concat (map missEvents [0..<20])
     = concat (replicate 11 [Write SYNC_PACKET, ReadRace 100]) @ resetPulse
       @ concat (replicate 9 [Write SYNC_PACKET, ReadRace 100])"
  by (simp add: missEvents_def eval_nat_numeral)

lemma startsWith_append: "startsWith (t @ b) t"
  by (simp add: startsWith_def)

lemma str_includes_prefix: "str_includes (t @ b) t"
  by (cases "t @ b") (use startsWith_append [of t b] in auto)

lemma str_includes_append: "str_includes (a @ t @ b) t"
  by (induction a) (simp_all add: str_includes_prefix)

lemma hexJoin_byte_18: "0x18 \<in> set bs \<Longrightarrow> str_includes (hexJoin bs) ''18''"
proof -
  assume "0x18 \<in> set bs"
  then obtain xs ys where "bs = xs @ 0x18 # ys" by (auto simp: in_set_conv_decomp)
  then have "hexJoin bs = hexJoin xs @ ''18'' @ hexJoin ys"
    by (simp add: hexJoin_def toString16_def hexDigit_def)
  then show ?thesis by (simp only: str_includes_append)
qed

lemma find_upt_None:
  "find P [0..<n] = None \<Longrightarrow> \<forall>j<n. \<not> P j"
  by (auto simp: find_None_iff)

lemma find_upt_Some:
  "find P [0..<n] = Some k \<Longrightarrow> k < n \<and> P k \<and> (\<forall>j<k. \<not> P j)"
  by (auto simp: find_Some_iff)

lemma probePort_sync_failed:
  assumes "openError e = None" and "reads st = 0" and "\<forall>j<20. unacked (replies e j)"
  shows "fst (probePort e hint st) = Inl \<lparr>name = ''Error'', message = ''Sync Failed''\<rparr>"
proof -
  let ?st1 = "(emit [PortOpen 115200, GetWriter, GetReader] st)
                \<lparr>portOpen := True, writableLocked := True, readableLocked := True,
                 writer := True, reader := True\<rparr>"
  have "reads ?st1 = 0" using assms(2) by (simp add: emit_def)
  then have "\<exists>st2. syncLoop (replies e) 0 ?st1 = (Inr False, st2)"
    using syncLoop_unacked [of 0 ?st1 "replies e"] assms(3) by simp
  then obtain st2 where "syncLoop (replies e) 0 ?st1 = (Inr False, st2)" ..
  then show ?thesis
    using assms(1) by (simp add: probePort_def Let_def)
qed

text \<open>
  Claim C2, as the code has it. Started with no read consumed, the sync loop writes the
  sync frame and races one read against a 100 ms timer, at most 20 times. It stops at the
  first reply that is not \<open>unacked\<close>: with \<^verbatim>\<open>synced = true\<close> when that reply is a chunk
  whose bytes, each printed in hexadecimal without padding and joined, contain the text
  \<open>18\<close> (with the error when the read was rejected); after \<open>k\<close> unacknowledged replies
  exactly \<open>k\<close> sync frames were sent before the deciding one. A byte equal to \<open>0x18\<close> in
  the chunk is enough for a match. When none of the 20 replies matches, \<^verbatim>\<open>synced\<close> stays
  \<^verbatim>\<open>false\<close> after 20 frames and the probe throws \<^verbatim>\<open>Error("Sync Failed")\<close>.
\<close>

theorem sync_handshake:
  "reads st = 0 \<Longrightarrow>
     syncLoop rs 0 st =
       (case find (\<lambda>j. \<not> unacked (rs j)) [0..<20] of
          None \<Rightarrow>
            (Inr False,
             st\<lparr>reads := 20, trace := trace st @ concat (map missEvents [0..<20])\<rparr>)
        | Some k \<Rightarrow>
            ((case rs k of ReadError err \<Rightarrow> Inl err | _ \<Rightarrow> Inr True),
             st\<lparr>reads := Suc k,
                trace := trace st @ concat (map missEvents [0..<k])
                         @ [Write SYNC_PACKET, ReadRace 100]\<rparr>))
     \<and> syncFrames (concat (map missEvents [0..<k])) = k
     \<and> unacked (Data bs) = (\<not> str_includes (hexJoin bs) ''18'')
     \<and> (0x18 \<in> set bs \<longrightarrow> \<not> unacked (Data bs))
     \<and> unacked Silent
     \<and> (openError e = None \<and> (\<forall>j<20. unacked (replies e j)) \<longrightarrow>
          fst (probePort e hint st) = Inl \<lparr>name = ''Error'', message = ''Sync Failed''\<rparr>)"
proof -
  assume rd: "reads st = 0"
  have loop: "syncLoop rs 0 st =
       (case find (\<lambda>j. \<not> unacked (rs j)) [0..<20] of
          None \<Rightarrow>
            (Inr False,
             st\<lparr>reads := 20, trace := trace st @ concat (map missEvents [0..<20])\<rparr>)
        | Some k \<Rightarrow>
            ((case rs k of ReadError err \<Rightarrow> Inl err | _ \<Rightarrow> Inr True),
             st\<lparr>reads := Suc k,
                trace := trace st @ concat (map missEvents [0..<k])
                         @ [Write SYNC_PACKET, ReadRace 100]\<rparr>))"
  proof (cases "find (\<lambda>j. \<not> unacked (rs j)) [0..<20]")
    case None
    from find_upt_None [OF this] have "\<forall>j<20. 0 \<le> j \<longrightarrow> unacked (rs j)" by simp
    from syncLoop_unacked [OF _ rd this] None show ?thesis by simp
  next
    case (Some k)
    from find_upt_Some [OF this]
    have k: "k < 20" "\<not> unacked (rs k)" "\<forall>j<k. 0 \<le> j \<longrightarrow> unacked (rs j)" by simp_all
    from syncLoop_first_decided [OF _ k(1) rd k(3) k(2)] Some show ?thesis by simp
  qed
  have frames: "syncFrames (concat (map missEvents [0..<k])) = k"
    by (simp add: syncFrames_misses)
  have ack: "unacked (Data bs) = (\<not> str_includes (hexJoin bs) ''18'')"
    by (simp add: unacked_def syncAck_def)
  have byte: "0x18 \<in> set bs \<longrightarrow> \<not> unacked (Data bs)"
    using hexJoin_byte_18 [of bs] ack by simp
  have silent: "unacked Silent" by (simp add: unacked_def)
  have failed: "openError e = None \<and> (\<forall>j<20. unacked (replies e j)) \<longrightarrow>
          fst (probePort e hint st) = Inl \<lparr>name = ''Error'', message = ''Sync Failed''\<rparr>"
    using probePort_sync_failed [of e st hint] rd by blast
  show ?thesis
    using loop frames ack byte silent failed by (intro conjI)
qed

theorem sync_handshake_witness:
  "syncLoop thirdReplies 0 session0
     = (Inr True,
        session0\<lparr>reads := 3,
                 trace := concat (replicate 3 [Write SYNC_PACKET, ReadRace 100])\<rparr>)
   \<and> \<not> unacked (Data [0x18])
   \<and> fst (probePort silentEnv None session0)
       = Inl \<lparr>name = ''Error'', message = ''Sync Failed''\<rparr>"
proof -
  have rd: "reads session0 = 0" by (simp add: session0_def)
  have un: "unacked (thirdReplies j) = (j \<noteq> 2)" for j
    by (simp add: thirdReplies_def unacked_def syncAck_def hexJoin_def toString16_def
        hexDigit_def startsWith_def)
  have fnd: "find (\<lambda>j. \<not> unacked (thirdReplies j)) [0..<20] = Some 2"
    unfolding un by (simp add: upt_conv_Cons)
  have silent: "openError silentEnv = None \<and> (\<forall>j<20. unacked (replies silentEnv j))"
    by (simp add: silentEnv_def silentReplies_def unacked_def)
  note inst = sync_handshake [OF rd, of thirdReplies 2 "[0x18]" silentEnv None]
  from inst have 1: "syncLoop thirdReplies 0 session0
     = (Inr True,
        session0\<lparr>reads := 3,
                 trace := concat (replicate 3 [Write SYNC_PACKET, ReadRace 100])\<rparr>)"
    unfolding fnd
    by (simp add: session0_def missEvents_def eval_nat_numeral thirdReplies_def)
  from inst have "(0x18::byte) \<in> set [0x18] \<longrightarrow> \<not> unacked (Data [0x18])" by blast
  then have 2: "\<not> unacked (Data [0x18])" by simp
  from inst silent have 3: "fst (probePort silentEnv None session0)
       = Inl \<lparr>name = ''Error'', message = ''Sync Failed''\<rparr>" by blast
  from 1 2 3 show ?thesis by (intro conjI)
qed

text \<open>
  The claim as written fails: the reply \<open>0x01 0x08\<close> holds no byte equal to \<open>0x18\<close>, yet
  it prints as \<open>1\<close> followed by \<open>8\<close>, and the loop declares success on the first frame.
\<close>

theorem sync_ack_counterexample:
  "(0x18::byte) \<notin> set [0x01, 0x08]
   \<and> pairReplies 0 = Data [0x01, 0x08]
   \<and> syncLoop pairReplies 0 session0
       = (Inr True, session0\<lparr>reads := 1, trace := [Write SYNC_PACKET, ReadRace 100]\<rparr>)"
  by (simp add: syncLoop_decided pairReplies_def unacked_def syncAck_def hexJoin_def
      toString16_def hexDigit_def startsWith_def session0_def exchanged_def)

text \<open>
  Claim C4. When none of the 20 replies acknowledges (every raced read times out or
  brings a chunk that does not match), the loop runs all 20 iterations and its operations
  are: eleven times a sync frame and a raced read, then the control-line pulse, then nine
  more times a sync frame and a raced read. The only control-line changes of the whole
  loop are the three of that one pulse.
\<close>

theorem reset_pulse_once:
  "reads st = 0 \<Longrightarrow> \<forall>j<20. unacked (rs j) \<Longrightarrow>
     syncLoop rs 0 st =
       (Inr False,
        st\<lparr>reads := 20,
           trace := trace st
             @ concat (replicate 11 [Write SYNC_PACKET, ReadRace 100])
             @ resetPulse
             @ concat (replicate 9 [Write SYNC_PACKET, ReadRace 100])\<rparr>)
     \<and> filter (\<lambda>ev. case ev of SetSignals dtr rts \<Rightarrow> True | _ \<Rightarrow> False)
          (concat (replicate 11 [Write SYNC_PACKET, ReadRace 100])
             @ resetPulse
             @ concat (replicate 9 [Write SYNC_PACKET, ReadRace 100]))
         = [SetSignals False True, SetSignals True False, SetSignals False False]"
proof -
  assume rd: "reads st = 0" and un: "\<forall>j<20. unacked (rs j)"
  from un have "\<forall>j<20. 0 \<le> j \<longrightarrow> unacked (rs j)" by simp
  from syncLoop_unacked [OF _ rd this]
  have "syncLoop rs 0 st
          = (Inr False, st\<lparr>reads := 20, trace := trace st @ concat (map missEvents [0..<20])\<rparr>)"
    by simp
  then have loop: "syncLoop rs 0 st =
       (Inr False,
        st\<lparr>reads := 20,
           trace := trace st
             @ concat (replicate 11 [Write SYNC_PACKET, ReadRace 100])
             @ resetPulse
             @ concat (replicate 9 [Write SYNC_PACKET, ReadRace 100])\<rparr>)"
    by (simp only: misses_explicit)
  have once: "filter (\<lambda>ev. case ev of SetSignals dtr rts \<Rightarrow> True | _ \<Rightarrow> False)
          (concat (replicate 11 [Write SYNC_PACKET, ReadRace 100])
             @ resetPulse
             @ concat (replicate 9 [Write SYNC_PACKET, ReadRace 100]))
         = [SetSignals False True, SetSignals True False, SetSignals False False]"
    by (simp add: resetPulse_def eval_nat_numeral)
  from loop once show ?thesis by (intro conjI)
qed

theorem reset_pulse_once_witness:
  "syncLoop silentReplies 0 session0 =
       (Inr False,
        session0\<lparr>reads := 20,
           trace := concat (replicate 11 [Write SYNC_PACKET, ReadRace 100])
             @ resetPulse
             @ concat (replicate 9 [Write SYNC_PACKET, ReadRace 100])\<rparr>)"
proof -
  have rd: "reads session0 = 0" by (simp add: session0_def)
  have un: "\<forall>j<20. unacked (silentReplies j)" by (simp add: silentReplies_def unacked_def)
  from reset_pulse_once [OF rd un] show ?thesis by (simp add: session0_def)
qed

section \<open>The retry policy\<close>

lemma flashRetryLoop_slow_s2:
  "attempt \<le> maxRetries \<Longrightarrow> flashResult e attempt = FlashFails duration err \<Longrightarrow>
   15000 < duration \<Longrightarrow>
     flashRetryLoop e ''ESP32-S2'' path maxRetries attempt p tr
       = (BootloaderRequired, tr @ [FlashFirmware attempt (portId p) path])"
  by (subst flashRetryLoop.simps) (simp add: Let_def)

lemma flashRetryLoop_ok:
  "attempt \<le> maxRetries \<Longrightarrow> flashResult e attempt = FlashOk \<Longrightarrow>
     flashRetryLoop e chip path maxRetries attempt p tr
       = (Success, tr @ [FlashFirmware attempt (portId p) path])"
  by (subst flashRetryLoop.simps) (simp add: Let_def)

lemma flashRetryLoop_fast_s2_first:
  "1 \<le> maxRetries \<Longrightarrow> flashResult e 1 = FlashFails duration err \<Longrightarrow> duration \<le> 15000 \<Longrightarrow>
     flashRetryLoop e ''ESP32-S2'' path maxRetries 1 p tr
       = (case detectESP32S2Port e of
            (Inl err', es) \<Rightarrow>
              (Thrown err',
               tr @ [FlashFirmware 1 (portId p) path] @ fst (safeClosePort (Some (portView e)))
                  @ [Sleep 1000] @ es)
          | (Inr None, es) \<Rightarrow>
              (Cancelled,
               tr @ [FlashFirmware 1 (portId p) path] @ fst (safeClosePort (Some (portView e)))
                  @ [Sleep 1000] @ es)
          | (Inr (Some p'), es) \<Rightarrow>
              flashRetryLoop e ''ESP32-S2'' path maxRetries 2 p'
                (tr @ [FlashFirmware 1 (portId p) path] @ fst (safeClosePort (Some (portView e)))
                    @ [Sleep 1000] @ es))"
  by (subst flashRetryLoop.simps)
     (simp add: Let_def del: One_nat_def split: prod.splits sum.splits option.splits)

lemma flashRetryLoop_hard_fail:
  "attempt \<le> maxRetries \<Longrightarrow> flashResult e attempt = FlashFails duration err \<Longrightarrow>
   \<not> (chip = ''ESP32-S2'' \<and> 15000 < duration) \<Longrightarrow> \<not> (attempt = 1 \<and> chip = ''ESP32-S2'') \<Longrightarrow>
     flashRetryLoop e chip path maxRetries attempt p tr
       = (Fatal, tr @ [FlashFirmware attempt (portId p) path])"
  by (subst flashRetryLoop.simps) (auto simp add: Let_def)

lemma flashAttempts_append: "flashAttempts (xs @ ys) = flashAttempts xs + flashAttempts ys"
  by (simp add: flashAttempts_def)

lemma reacquisitions_append: "reacquisitions (xs @ ys) = reacquisitions xs + reacquisitions ys"
  by (simp add: reacquisitions_def)

lemma safeClosePort_counts:
  "flashAttempts (fst (safeClosePort v)) = 0 \<and> reacquisitions (fst (safeClosePort v)) = 0"
  by (simp add: safeClosePort_def flashAttempts_def reacquisitions_def split: option.splits)

lemma detectESP32S2Port_counts:
  "flashAttempts (snd (detectESP32S2Port e)) = 0 \<and> reacquisitions (snd (detectESP32S2Port e)) = 1"
  by (simp add: detectESP32S2Port_def flashAttempts_def reacquisitions_def
      split: option.splits sum.splits)

text \<open>
  Claim C3, as the code has it. For chip family ESP32-S2, an attempt that fails after more
  than 15000 ms ends the retry loop at once in the boot-mode outcome, with nothing issued
  after that call of the loader; when it is attempt 1 the whole run is exactly one call
  of the loader and no re-detection, whatever the attempt budget.
\<close>

theorem s2_bootloader_timeout:
  "attempt \<le> maxRetries \<Longrightarrow> flashResult e attempt = FlashFails duration err \<Longrightarrow>
   15000 < duration \<Longrightarrow>
     flashRetryLoop e ''ESP32-S2'' path maxRetries attempt p tr
       = (BootloaderRequired, tr @ [FlashFirmware attempt (portId p) path])
     \<and> (attempt = 1 \<longrightarrow>
          flashFirmwareWithRetry e p ''ESP32-S2'' path maxRetries
            = (BootloaderRequired, [FlashFirmware 1 (portId p) path])
          \<and> flashAttempts (snd (flashFirmwareWithRetry e p ''ESP32-S2'' path maxRetries)) = 1
          \<and> reacquisitions (snd (flashFirmwareWithRetry e p ''ESP32-S2'' path maxRetries)) = 0)"
proof -
  assume a: "attempt \<le> maxRetries" "flashResult e attempt = FlashFails duration err"
    "15000 < duration"
  have loop: "flashRetryLoop e ''ESP32-S2'' path maxRetries attempt p tr
       = (BootloaderRequired, tr @ [FlashFirmware attempt (portId p) path])" for tr
    using a by (rule flashRetryLoop_slow_s2)
  have top: "attempt = 1 \<Longrightarrow> flashFirmwareWithRetry e p ''ESP32-S2'' path maxRetries
            = (BootloaderRequired, [FlashFirmware 1 (portId p) path])"
    using loop [of "[]"] by (simp add: flashFirmwareWithRetry_def)
  show ?thesis
    using loop [of tr] top by (simp add: flashAttempts_def reacquisitions_def)
qed

theorem s2_bootloader_timeout_witness:
  "flashFirmwareWithRetry slowEnv s2Port ''ESP32-S2'' ''bins/v1.0.1/esp32s2_full.bin'' 3
     = (BootloaderRequired, [FlashFirmware 1 1 ''bins/v1.0.1/esp32s2_full.bin''])"
proof -
  have "(1::nat) \<le> 3" by simp
  moreover have "flashResult slowEnv 1 = FlashFails 20000 connectError"
    by (simp add: slowEnv_def slowFail_def)
  moreover have "(15000::int) < 20000" by simp
  ultimately show ?thesis
    using s2_bootloader_timeout [of 1 3 slowEnv 20000 connectError
        "''bins/v1.0.1/esp32s2_full.bin''" s2Port "[]"]
    by (simp add: s2Port_def)
qed

text \<open>
  At exactly 15000 ms the claim as written fails: the test is \<^verbatim>\<open>duration > 15000\<close>, so
  the first failure is treated as a fast one, the port is re-detected, and the second
  failure ends in the generic error after two attempts.
\<close>

theorem s2_boundary_counterexample:
  "flashResult boundaryEnv 1 = FlashFails 15000 connectError
   \<and> (15000::int) \<ge> 15000
   \<and> flashFirmwareWithRetry boundaryEnv s2Port ''ESP32-S2'' ''bins/v1.0.1/esp32s2_full.bin'' 3
       = (Fatal,
          [FlashFirmware 1 1 ''bins/v1.0.1/esp32s2_full.bin'',
           CancelReadable, GetWriter, ReleaseWriter, PortClose, Sleep 1000, GetPorts,
           FlashFirmware 2 1 ''bins/v1.0.1/esp32s2_full.bin''])"
proof -
  have r: "flashResult boundaryEnv n = FlashFails 15000 connectError" for n
    by (simp add: boundaryEnv_def boundaryFail_def)
  have d: "detectESP32S2Port boundaryEnv = (Inr (Some s2Port), [GetPorts])"
    by (simp add: detectESP32S2Port_def boundaryEnv_def s2Port_def)
  have c: "fst (safeClosePort (Some (portView boundaryEnv)))
             = [CancelReadable, GetWriter, ReleaseWriter, PortClose]"
    by (simp add: safeClosePort_def boundaryEnv_def openView_def)
  let ?path = "''bins/v1.0.1/esp32s2_full.bin''"
  let ?tr = "[FlashFirmware 1 (portId s2Port) ?path, CancelReadable, GetWriter, ReleaseWriter,
              PortClose, Sleep 1000, GetPorts]"
  have first: "flashRetryLoop boundaryEnv ''ESP32-S2'' ?path 3 1 s2Port []
                 = flashRetryLoop boundaryEnv ''ESP32-S2'' ?path 3 2 s2Port ?tr"
    using flashRetryLoop_fast_s2_first [of 3 boundaryEnv 15000 connectError ?path s2Port "[]"]
    by (simp add: r d c del: One_nat_def)
  have second: "flashRetryLoop boundaryEnv ''ESP32-S2'' ?path 3 2 s2Port ?tr
                 = (Fatal, ?tr @ [FlashFirmware 2 (portId s2Port) ?path])"
    using flashRetryLoop_hard_fail [of 2 3 boundaryEnv 15000 connectError "''ESP32-S2''"
        ?path s2Port ?tr]
    by (simp add: r)
  show ?thesis
    unfolding flashFirmwareWithRetry_def first second
    by (simp add: r s2Port_def)
qed

text \<open>
  Claim C5. For chip family ESP32-S2 with a budget of at least two attempts (the default
  is 3), when attempt 1 fails in less than 15000 ms and attempt 2 succeeds: if the
  re-detection yields a port, the run ends in \<open>Success\<close> after exactly 2 calls of the
  loader and exactly one re-detection, in the order first attempt, release of the old
  port, pause of 1000 ms, re-detection, second attempt on the new port; if the
  re-detection yields no port, the run ends in \<open>Cancelled\<close> after 1 call. The
  re-detection yields no port exactly when no granted port has the Espressif vendor id
  and the user dismisses the port picker.
\<close>

theorem s2_transient_recovery:
  "2 \<le> maxRetries \<Longrightarrow> flashResult e 1 = FlashFails duration err \<Longrightarrow> duration < 15000 \<Longrightarrow>
   flashResult e 2 = FlashOk \<Longrightarrow>
     (detectESP32S2Port e = (Inr (Some p'), es) \<longrightarrow>
        flashFirmwareWithRetry e p ''ESP32-S2'' path maxRetries
          = (Success,
             [FlashFirmware 1 (portId p) path] @ fst (safeClosePort (Some (portView e)))
               @ [Sleep 1000] @ es @ [FlashFirmware 2 (portId p') path])
        \<and> flashAttempts (snd (flashFirmwareWithRetry e p ''ESP32-S2'' path maxRetries)) = 2
        \<and> reacquisitions (snd (flashFirmwareWithRetry e p ''ESP32-S2'' path maxRetries)) = 1)
     \<and> (detectESP32S2Port e = (Inr None, es) \<longrightarrow>
          flashFirmwareWithRetry e p ''ESP32-S2'' path maxRetries
            = (Cancelled,
               [FlashFirmware 1 (portId p) path] @ fst (safeClosePort (Some (portView e)))
                 @ [Sleep 1000] @ es)
          \<and> flashAttempts (snd (flashFirmwareWithRetry e p ''ESP32-S2'' path maxRetries)) = 1)
     \<and> (fst (detectESP32S2Port e) = Inr None) =
          (find (\<lambda>q. usbVendorId (portInfo q) = Some 0x303a) (grantedPorts e) = None
           \<and> (\<exists>err'. pickResult e = Inl err' \<and> name err' = ''NotFoundError''))"
proof -
  assume a: "2 \<le> maxRetries" "flashResult e 1 = FlashFails duration err" "duration < 15000"
    "flashResult e 2 = FlashOk"
  from a have one: "1 \<le> maxRetries" and le: "duration \<le> 15000" by simp_all
  note first = flashRetryLoop_fast_s2_first [OF one a(2) le, of path p "[]"]
  note second = flashRetryLoop_ok [OF a(1) a(4), of "''ESP32-S2''" path]
  have counts: "flashAttempts (fst (safeClosePort (Some (portView e)))) = 0"
    "reacquisitions (fst (safeClosePort (Some (portView e)))) = 0"
    "flashAttempts (snd (detectESP32S2Port e)) = 0"
    "reacquisitions (snd (detectESP32S2Port e)) = 1"
    using safeClosePort_counts detectESP32S2Port_counts by simp_all
  have single: "flashAttempts [ev] = (case ev of FlashFirmware _ _ _ \<Rightarrow> 1 | _ \<Rightarrow> 0)"
    "reacquisitions [ev] = (if ev = GetPorts then 1 else 0)" for ev
    by (simp_all add: flashAttempts_def reacquisitions_def split: event.splits)
  have recovered: "detectESP32S2Port e = (Inr (Some p'), es) \<longrightarrow>
        flashFirmwareWithRetry e p ''ESP32-S2'' path maxRetries
          = (Success,
             [FlashFirmware 1 (portId p) path] @ fst (safeClosePort (Some (portView e)))
               @ [Sleep 1000] @ es @ [FlashFirmware 2 (portId p') path])
        \<and> flashAttempts (snd (flashFirmwareWithRetry e p ''ESP32-S2'' path maxRetries)) = 2
        \<and> reacquisitions (snd (flashFirmwareWithRetry e p ''ESP32-S2'' path maxRetries)) = 1"
  proof
    assume d: "detectESP32S2Port e = (Inr (Some p'), es)"
    have run: "flashFirmwareWithRetry e p ''ESP32-S2'' path maxRetries
          = (Success,
             [FlashFirmware 1 (portId p) path] @ fst (safeClosePort (Some (portView e)))
               @ [Sleep 1000] @ es @ [FlashFirmware 2 (portId p') path])"
      unfolding flashFirmwareWithRetry_def first d by (simp add: second)
    from counts d have es: "flashAttempts es = 0" "reacquisitions es = 1" by simp_all
    show "flashFirmwareWithRetry e p ''ESP32-S2'' path maxRetries
          = (Success,
             [FlashFirmware 1 (portId p) path] @ fst (safeClosePort (Some (portView e)))
               @ [Sleep 1000] @ es @ [FlashFirmware 2 (portId p') path])
        \<and> flashAttempts (snd (flashFirmwareWithRetry e p ''ESP32-S2'' path maxRetries)) = 2
        \<and> reacquisitions (snd (flashFirmwareWithRetry e p ''ESP32-S2'' path maxRetries)) = 1"
      unfolding run
      by (simp add: flashAttempts_append reacquisitions_append counts es single
          del: append_Cons append_Nil)
  qed
  have aborted: "detectESP32S2Port e = (Inr None, es) \<longrightarrow>
          flashFirmwareWithRetry e p ''ESP32-S2'' path maxRetries
            = (Cancelled,
               [FlashFirmware 1 (portId p) path] @ fst (safeClosePort (Some (portView e)))
                 @ [Sleep 1000] @ es)
          \<and> flashAttempts (snd (flashFirmwareWithRetry e p ''ESP32-S2'' path maxRetries)) = 1"
  proof
    assume d: "detectESP32S2Port e = (Inr None, es)"
    have run: "flashFirmwareWithRetry e p ''ESP32-S2'' path maxRetries
            = (Cancelled,
               [FlashFirmware 1 (portId p) path] @ fst (safeClosePort (Some (portView e)))
                 @ [Sleep 1000] @ es)"
      unfolding flashFirmwareWithRetry_def first d by simp
    from counts d have es: "flashAttempts es = 0" by simp
    show "flashFirmwareWithRetry e p ''ESP32-S2'' path maxRetries
            = (Cancelled,
               [FlashFirmware 1 (portId p) path] @ fst (safeClosePort (Some (portView e)))
                 @ [Sleep 1000] @ es)
          \<and> flashAttempts (snd (flashFirmwareWithRetry e p ''ESP32-S2'' path maxRetries)) = 1"
      unfolding run
      by (simp add: flashAttempts_append counts es single del: append_Cons append_Nil)
  qed
  have none: "(fst (detectESP32S2Port e) = Inr None) =
          (find (\<lambda>q. usbVendorId (portInfo q) = Some 0x303a) (grantedPorts e) = None
           \<and> (\<exists>err'. pickResult e = Inl err' \<and> name err' = ''NotFoundError''))"
    by (auto simp: detectESP32S2Port_def split: option.splits sum.splits)
  from recovered aborted none show ?thesis by (intro conjI)
qed

theorem s2_transient_recovery_witness:
  "flashFirmwareWithRetry transientEnv s2Port ''ESP32-S2'' ''bins/v1.0.1/esp32s2_app.bin'' 3
     = (Success,
        [FlashFirmware 1 1 ''bins/v1.0.1/esp32s2_app.bin'',
         CancelReadable, GetWriter, ReleaseWriter, PortClose, Sleep 1000, GetPorts,
         FlashFirmware 2 1 ''bins/v1.0.1/esp32s2_app.bin''])
   \<and> flashFirmwareWithRetry abortEnv s2Port ''ESP32-S2'' ''bins/v1.0.1/esp32s2_app.bin'' 3
     = (Cancelled,
        [FlashFirmware 1 1 ''bins/v1.0.1/esp32s2_app.bin'',
         CancelReadable, GetWriter, ReleaseWriter, PortClose, Sleep 1000, GetPorts,
         RequestPort])"
proof -
  have m: "(2::nat) \<le> 3" and d: "(800::int) < 15000" by simp_all
  have t1: "flashResult transientEnv 1 = FlashFails 800 connectError"
    and t2: "flashResult transientEnv 2 = FlashOk"
    by (simp_all add: transientEnv_def transientFail_def)
  have a1: "flashResult abortEnv 1 = FlashFails 800 connectError"
    and a2: "flashResult abortEnv 2 = FlashOk"
    by (simp_all add: abortEnv_def transientFail_def)
  have dt: "detectESP32S2Port transientEnv = (Inr (Some s2Port), [GetPorts])"
    by (simp add: detectESP32S2Port_def transientEnv_def s2Port_def)
  have da: "detectESP32S2Port abortEnv = (Inr None, [GetPorts, RequestPort])"
    by (simp add: detectESP32S2Port_def abortEnv_def pickerDismissed_def)
  have ct: "fst (safeClosePort (Some (portView transientEnv)))
             = [CancelReadable, GetWriter, ReleaseWriter, PortClose]"
    by (simp add: safeClosePort_def transientEnv_def openView_def)
  have ca: "fst (safeClosePort (Some (portView abortEnv)))
             = [CancelReadable, GetWriter, ReleaseWriter, PortClose]"
    by (simp add: safeClosePort_def abortEnv_def openView_def)
  from s2_transient_recovery [OF m t1 d t2, of s2Port "[GetPorts]" s2Port
      "''bins/v1.0.1/esp32s2_app.bin''"] dt ct
  have 1: "flashFirmwareWithRetry transientEnv s2Port ''ESP32-S2'' ''bins/v1.0.1/esp32s2_app.bin'' 3
     = (Success,
        [FlashFirmware 1 1 ''bins/v1.0.1/esp32s2_app.bin'',
         CancelReadable, GetWriter, ReleaseWriter, PortClose, Sleep 1000, GetPorts,
         FlashFirmware 2 1 ''bins/v1.0.1/esp32s2_app.bin''])"
    by (simp add: s2Port_def)
  from s2_transient_recovery [OF m a1 d a2, of s2Port "[GetPorts, RequestPort]" s2Port
      "''bins/v1.0.1/esp32s2_app.bin''"] da ca
  have 2: "flashFirmwareWithRetry abortEnv s2Port ''ESP32-S2'' ''bins/v1.0.1/esp32s2_app.bin'' 3
     = (Cancelled,
        [FlashFirmware 1 1 ''bins/v1.0.1/esp32s2_app.bin'',
         CancelReadable, GetWriter, ReleaseWriter, PortClose, Sleep 1000, GetPorts,
         RequestPort])"
    by (simp add: s2Port_def)
  from 1 2 show ?thesis by (intro conjI)
qed

section \<open>The detection flow\<close>

lemma findBuild_S2:
  "findBuild ''ESP32-S2''
     = Some \<lparr>chipFamily = ''ESP32-S2'', factory = ''v1.0.1/esp32s2_full.bin'',
             update = ''v1.0.1/esp32s2_app.bin''\<rparr>"
  by (simp add: findBuild_def manifest_builds_def basePath_def)

lemma catchBlock_sync_failed:
  "catchBlock \<lparr>name = ''Error'', message = ''Sync Failed''\<rparr> = ErrorSlide"
  by (simp add: catchBlock_def startsWith_def)

text \<open>
  Claim C6 at a transport that never answers the sync frames. The run ends on the error
  slide after \<^verbatim>\<open>Error("Sync Failed")\<close>; the \<^verbatim>\<open>finally\<close> block releases the writer and
  the reader lock, but nothing closes the port: it is still open when the run is over and
  no \<^verbatim>\<open>port.close()\<close> was issued.
\<close>

theorem sync_failed_leaves_port_open:
  "runFlasher silentEnv =
     (ErrorSlide,
      session0\<lparr>portOpen := True, writer := True, reader := True, reads := 20,
        trace := [RequestPort, GetPorts, PortOpen 115200, GetWriter, GetReader]
          @ concat (replicate 11 [Write SYNC_PACKET, ReadRace 100])
          @ resetPulse
          @ concat (replicate 9 [Write SYNC_PACKET, ReadRace 100])
          @ [ReleaseWriter, ReleaseReader]\<rparr>)
   \<and> portOpen (snd (runFlasher silentEnv))
   \<and> \<not> writableLocked (snd (runFlasher silentEnv))
   \<and> \<not> readableLocked (snd (runFlasher silentEnv))
   \<and> PortClose \<notin> set (trace (snd (runFlasher silentEnv)))"
proof -
  let ?st1 = "(emit [PortOpen 115200, GetWriter, GetReader]
                (emit [RequestPort, GetPorts] session0))
                \<lparr>portOpen := True, writableLocked := True, readableLocked := True,
                 writer := True, reader := True\<rparr>"
  have rd: "reads ?st1 = 0" by (simp add: emit_def session0_def)
  have un: "\<forall>j<20. 0 \<le> j \<longrightarrow> unacked (silentReplies j)"
    by (simp add: silentReplies_def unacked_def)
  have loop: "syncLoop silentReplies 0 ?st1
      = (Inr False, ?st1\<lparr>reads := 20, trace := trace ?st1 @ concat (map missEvents [0..<20])\<rparr>)"
    using syncLoop_unacked [OF _ rd un] by simp
  have hint: "chipByPID_of uartInfo = None"
    by (simp add: chipByPID_of_def uartInfo_def)
  have body: "tryBody silentEnv session0
      = (Inl \<lparr>name = ''Error'', message = ''Sync Failed''\<rparr>,
         ?st1\<lparr>reads := 20, trace := trace ?st1 @ concat (map missEvents [0..<20])\<rparr>)"
    by (simp add: tryBody_def probePort_def silentEnv_def hint Let_def loop)
  have run: "runFlasher silentEnv =
     (ErrorSlide,
      session0\<lparr>portOpen := True, writer := True, reader := True, reads := 20,
        trace := [RequestPort, GetPorts, PortOpen 115200, GetWriter, GetReader]
          @ concat (replicate 11 [Write SYNC_PACKET, ReadRace 100])
          @ resetPulse
          @ concat (replicate 9 [Write SYNC_PACKET, ReadRace 100])
          @ [ReleaseWriter, ReleaseReader]\<rparr>)"
    unfolding runFlasher_def body misses_explicit
    by (simp add: catchBlock_sync_failed finallyBlock_def emit_def session0_def)
  show ?thesis
    unfolding run by (simp add: session0_def resetPulse_def)
qed

text \<open>
  Claim C8. When the picked port has vendor id \<open>0x303A\<close> and product id \<open>0x0002\<close> or
  \<open>0x0003\<close>, the run goes straight to the install prompt for ESP32-S2 with its manifest
  build. The only operations are the port request and the listing of granted ports: the
  port is never opened, no read is raced, no sync frame and no register-read frame is
  written.
\<close>

theorem s2_descriptor_shortcut:
  "pickerResult e = Inr info \<Longrightarrow> usbVendorId info = Some 0x303A \<Longrightarrow>
   usbProductId info = Some 0x0002 \<or> usbProductId info = Some 0x0003 \<Longrightarrow>
     runFlasher e =
       (InstallPrompt ''ESP32-S2''
          \<lparr>chipFamily = ''ESP32-S2'', factory = ''v1.0.1/esp32s2_full.bin'',
           update = ''v1.0.1/esp32s2_app.bin''\<rparr>,
        session0\<lparr>trace := [RequestPort, GetPorts]\<rparr>)
     \<and> \<not> portOpen (snd (runFlasher e))
     \<and> reads (snd (runFlasher e)) = 0
     \<and> PortOpen 115200 \<notin> set (trace (snd (runFlasher e)))
     \<and> Write SYNC_PACKET \<notin> set (trace (snd (runFlasher e)))
     \<and> Write READ_REG_PACKET \<notin> set (trace (snd (runFlasher e)))"
proof -
  assume a: "pickerResult e = Inr info" "usbVendorId info = Some 0x303A"
    "usbProductId info = Some 0x0002 \<or> usbProductId info = Some 0x0003"
  from a(2,3) have hint: "chipByPID_of info = Some ''ESP32-S2''"
    by (auto simp: chipByPID_of_def)
  have body: "tryBody e session0 =
       (Inr (InstallPrompt ''ESP32-S2''
          \<lparr>chipFamily = ''ESP32-S2'', factory = ''v1.0.1/esp32s2_full.bin'',
           update = ''v1.0.1/esp32s2_app.bin''\<rparr>),
        session0\<lparr>trace := [RequestPort, GetPorts]\<rparr>)"
    by (simp add: tryBody_def a(1) hint findBuild_S2 Let_def emit_def session0_def)
  have run: "runFlasher e =
       (InstallPrompt ''ESP32-S2''
          \<lparr>chipFamily = ''ESP32-S2'', factory = ''v1.0.1/esp32s2_full.bin'',
           update = ''v1.0.1/esp32s2_app.bin''\<rparr>,
        session0\<lparr>trace := [RequestPort, GetPorts]\<rparr>)"
    unfolding runFlasher_def body by (simp add: finallyBlock_def session0_def)
  show ?thesis
    unfolding run by (simp add: session0_def)
qed

theorem s2_descriptor_shortcut_witness:
  "runFlasher s2Env =
       (InstallPrompt ''ESP32-S2''
          \<lparr>chipFamily = ''ESP32-S2'', factory = ''v1.0.1/esp32s2_full.bin'',
           update = ''v1.0.1/esp32s2_app.bin''\<rparr>,
        session0\<lparr>trace := [RequestPort, GetPorts]\<rparr>)"
  using s2_descriptor_shortcut
    [of s2Env "\<lparr>usbVendorId = Some 0x303A, usbProductId = Some 0x0002\<rparr>"]
  by (simp add: s2Env_def)

lemma flashAddress_cases:
  "flashAddress True ''ESP32'' = 0x10000 \<and> flashAddress False ''ESP32'' = 0x0000
   \<and> flashAddress keepData ''ESP8266'' = 0x0000
   \<and> flashAddress keepData chip = (if keepData \<and> startsWith chip ''ESP32'' then 0x10000 else 0)"
  by (simp add: flashAddress_def startsWith_def)

lemma installWrite_unchanged:
  "installWrite stored [] chip b =
     \<lparr>firmwareFile = ''bins/'' @ (if shouldKeepData stored then update b else factory b),
      address = (if shouldKeepData stored \<and> startsWith chip ''ESP32'' then 0x10000 else 0),
      eraseAll = \<not> shouldKeepData stored\<rparr>"
  by (simp add: installWrite_def selectedFirmware_def flashAddress_def)

text \<open>
  Claim C9 at a preference that changes between the two reads. The user confirms an
  install for the ESP32 family with keep-data stored as \<open>true\<close>, so the update image
  \<^verbatim>\<open>esp32_app.bin\<close> is selected; while the loader connects, the user ticks the erase-all
  checkbox. The address is then computed from the new value: the update image is written
  at \<open>0x0000\<close>, after erasing the whole flash, and not at \<open>0x10000\<close>.
\<close>

theorem update_image_written_at_zero:
  "findBuild ''ESP32'' = Some esp32Build
   \<and> shouldKeepData (Some ''true'')
   \<and> installWrite (Some ''true'') [True] ''ESP32'' esp32Build
       = \<lparr>firmwareFile = ''bins/v1.0.1/esp32_app.bin'', address = 0x0000, eraseAll = True\<rparr>
   \<and> firmwareFile (installWrite (Some ''true'') [True] ''ESP32'' esp32Build)
       = ''bins/'' @ update esp32Build
   \<and> address (installWrite (Some ''true'') [True] ''ESP32'' esp32Build) \<noteq> 0x10000"
  by (simp add: findBuild_def manifest_builds_def basePath_def esp32Build_def
      shouldKeepData_def installWrite_def eraseAllChanged_def selectedFirmware_def
      flashAddress_def)

lemma resolve_native_cdc: "resolve (Some ''NATIVE_CDC'') magic = resolve None magic"
  by (simp add: resolve_def)

lemma probePort_native_cdc: "probePort e (Some ''NATIVE_CDC'') st = probePort e None st"
  by (simp add: probePort_def resolve_native_cdc
      cong: option.case_cong prod.case_cong sum.case_cong bool.case_cong)

lemma probePort_picker: "probePort (e\<lparr>pickerResult := r\<rparr>) hint st = probePort e hint st"
  by (simp add: probePort_def
      cong: option.case_cong prod.case_cong sum.case_cong bool.case_cong)

text \<open>
  Claim C10. When the picked port has vendor id \<open>0x303A\<close> and product id \<open>0x1001\<close>,
  \<open>0x1002\<close> or \<open>0x1003\<close>, the hint is \<open>NATIVE_CDC\<close>, and the whole run (outcome, port
  state and operations) is the same as with any descriptor that gives no hint, for every
  environment: every sequence of replies, every result of \<^verbatim>\<open>port.open\<close>. The resolution
  step treats the hint like \<^verbatim>\<open>null\<close>, and no descriptor at all makes the hint
  \<open>ESP32-C3\<close>, so the override branch of the resolution is never taken.
\<close>

theorem native_cdc_hint_inert:
  "pickerResult e = Inr info \<Longrightarrow> usbVendorId info = Some 0x303A \<Longrightarrow>
   usbProductId info = Some 0x1001 \<or> usbProductId info = Some 0x1002
     \<or> usbProductId info = Some 0x1003 \<Longrightarrow>
   chipByPID_of info' = None \<Longrightarrow>
     chipByPID_of info = Some ''NATIVE_CDC''
     \<and> runFlasher e = runFlasher (e\<lparr>pickerResult := Inr info'\<rparr>)
     \<and> runFlasher e = runFlasher (e\<lparr>pickerResult := Inr noInfo\<rparr>)
     \<and> resolve (chipByPID_of info) magic = resolve None magic
     \<and> chipByPID_of anyInfo \<noteq> Some ''ESP32-C3''"
proof -
  assume a: "pickerResult e = Inr info" "usbVendorId info = Some 0x303A"
    "usbProductId info = Some 0x1001 \<or> usbProductId info = Some 0x1002
       \<or> usbProductId info = Some 0x1003"
    "chipByPID_of info' = None"
  from a(2,3) have hint: "chipByPID_of info = Some ''NATIVE_CDC''"
    by (auto simp: chipByPID_of_def)
  have none: "chipByPID_of noInfo = None" by (simp add: chipByPID_of_def noInfo_def)
  have same: "chipByPID_of i = None \<Longrightarrow>
                tryBody e session0 = tryBody (e\<lparr>pickerResult := Inr i\<rparr>) session0" for i
    by (simp add: tryBody_def a(1) hint Let_def probePort_native_cdc probePort_picker)
  have run: "chipByPID_of i = None \<Longrightarrow> runFlasher e = runFlasher (e\<lparr>pickerResult := Inr i\<rparr>)"
    for i
    using same [of i] by (simp add: runFlasher_def)
  show ?thesis
    using hint run [OF a(4)] run [OF none] resolve_native_cdc chipByPID_of_not_C3
    by simp
qed

theorem native_cdc_hint_inert_witness:
  "runFlasher cdcEnv = runFlasher (cdcEnv\<lparr>pickerResult := Inr noInfo\<rparr>)
   \<and> chipByPID_of \<lparr>usbVendorId = Some 0x303A, usbProductId = Some 0x1001\<rparr> = Some ''NATIVE_CDC''"
  using native_cdc_hint_inert
    [of cdcEnv "\<lparr>usbVendorId = Some 0x303A, usbProductId = Some 0x1001\<rparr>" noInfo]
  by (simp add: cdcEnv_def chipByPID_of_def noInfo_def)

end
